theory Spec2Isabelle
  imports Main "HOL-Library.Sublist"
begin

section \<open>Data model\<close>

text \<open>
  \<open>Layer\<close>, \<open>Stack\<close> and \<open>Library\<close> are TypeScript string enums of
  \<open>data/dictionaries.ts\<close>; the strategies compare them with \<open>!==\<close> against string
  variables and hand them to helpers as \<open>string\<close>, so they are strings here.
\<close>

type_synonym Layer = string
type_synonym Stack = string
type_synonym Library = string

text \<open>\<open>RulesContent\<close> of \<open>RulesBuilderTypes.ts\<close>: one generated document.\<close>

record RulesContent =
  markdown :: string
  label :: string
  fileName :: string

text \<open>The argument object the strategies pass to \<open>renderLibrarySection\<close>.\<close>

record LibrarySection =
  layer :: Layer
  stack :: Stack
  library :: Library
  includeLayerHeader :: bool
  includeStackHeader :: bool

text \<open>
  The three argument objects of \<open>generateRules\<close>. A JavaScript object used as a
  \<open>Record\<close> is a sequence of key/value entries in key order, so both groupings are
  association lists; \<open>selectedLibraries\<close> is an array.
\<close>

record GenerateRulesArgs =
  selectedLibraries :: "Library list"
  stacksByLayer :: "(Layer \<times> Stack list) list"
  librariesByStack :: "(Stack \<times> Library list) list"

text \<open>
  The module \<open>markdown-builders/index.ts\<close> is imported by both strategies but is not
  among the sources. The text its functions produce is therefore a parameter of the
  model: one field per imported function whose output format the specification leaves
  open. \<open>createLibraryFileMetadata\<close> returns the pair \<open>(label, fileName)\<close> that the
  source destructures. \<open>emptyProjectDocument\<close> is the document that
  \<open>createEmptyProjectRulesContent\<close> wraps (see below).
\<close>

record MarkdownBuilders =
  createProjectMarkdown :: "string \<Rightarrow> string \<Rightarrow> string"
  createProjectRulesContent :: "string \<Rightarrow> string \<Rightarrow> RulesContent"
  emptyProjectDocument :: "string \<Rightarrow> string \<Rightarrow> RulesContent"
  renderLibrarySection :: "LibrarySection \<Rightarrow> string"
  createLibraryFileMetadata :: "string \<Rightarrow> string \<Rightarrow> string \<Rightarrow> string \<times> string"

text \<open>The one-character string \<open>'\n'\<close>.\<close>

definition newline :: string where
  "newline = [CHR 0x0A]"

section \<open>Helpers of the markdown-builders module\<close>

text \<open>
  Modelled from the spec: \<open>createEmptyProjectRulesContent\<close> (markdown-builders, not in
  the sources). Section 4.2: it "produces a single fallback document when Selection is
  empty"; the strategies return its value as their \<open>RulesContent[]\<close>. The content of
  that document is the parameter \<open>emptyProjectDocument\<close>.
\<close>

definition createEmptyProjectRulesContent ::
    "MarkdownBuilders \<Rightarrow> string \<Rightarrow> string \<Rightarrow> RulesContent list" where
  "createEmptyProjectRulesContent b projectName projectDescription =
     [emptyProjectDocument b projectName projectDescription]"

text \<open>
  Modelled from the spec: the lookup \<open>librariesByStack[stack]\<close> of the traversal
  (markdown-builders, not in the sources). Section 4.3 has every stack of
  \<open>stacksByLayer\<close> present with at least one library; a stack with no entry
  contributes no library to the traversal.
\<close>

definition librariesOf :: "(Stack \<times> Library list) list \<Rightarrow> Stack \<Rightarrow> Library list" where
  "librariesOf lbs stk = (case map_of lbs stk of None \<Rightarrow> [] | Some libs \<Rightarrow> libs)"

text \<open>
  Modelled from the spec: \<open>iterateLayersStacksLibraries\<close> (markdown-builders, not in
  the sources). Section 4.3: it visits the libraries "grouped by Layer then Stack", in
  the order of the groupings, skips nothing, and calls \<open>onLibrary(layer, stack,
  library)\<close> for each. The callbacks of both strategies assign to variables of the
  enclosing scope, so the callback is a transformer of a state \<open>'s\<close> and the traversal
  threads that state through the calls in order: three nested loops.
\<close>

definition iterateLayersStacksLibraries ::
    "(Layer \<times> Stack list) list \<Rightarrow> (Stack \<times> Library list) list \<Rightarrow>
     (Layer \<Rightarrow> Stack \<Rightarrow> Library \<Rightarrow> 's \<Rightarrow> 's) \<Rightarrow> 's \<Rightarrow> 's" where
  "iterateLayersStacksLibraries sbl lbs onLibrary =
     fold (\<lambda>(lay, stacks).
        fold (\<lambda>stk. fold (\<lambda>lib. onLibrary lay stk lib) (librariesOf lbs stk)) stacks) sbl"

text \<open>
  Modelled from the spec: the sequence of \<open>onLibrary\<close> calls that traversal makes, as
  a list of \<open>(layer, stack, library)\<close> triples; the lemma \<open>iterate_as_visits\<close> below
  shows it is the same traversal.
\<close>

definition libraryVisits ::
    "(Layer \<times> Stack list) list \<Rightarrow> (Stack \<times> Library list) list \<Rightarrow>
     (Layer \<times> Stack \<times> Library) list" where
  "libraryVisits sbl lbs =
     concat (map (\<lambda>(lay, stacks).
       concat (map (\<lambda>stk. map (\<lambda>lib. (lay, stk, lib)) (librariesOf lbs stk)) stacks)) sbl)"

section \<open>The scope a callback runs in\<close>

text \<open>
  What an \<open>onLibrary\<close> callback can reach: the argument objects of the call and the
  local variables its closure captured. Every callback and every strategy returns the
  scope it leaves behind, so that a write to an argument object would show.
\<close>

record 'l Scope =
  argumentObjects :: GenerateRulesArgs
  locals :: 'l

section \<open>SingleFileRulesStrategy\<close>

text \<open>The locals of \<open>generateLibraryMarkdown\<close>: \<open>markdown\<close>, \<open>previousLayer\<close>,
  \<open>previousStack\<close>, each declared with \<open>let\<close> and initialised to \<open>''\<close>.\<close>

record SingleFileLocals =
  markdownVar :: string
  previousLayer :: string
  previousStack :: string

text \<open>
  The arrow function passed as \<open>onLibrary\<close> (lines 44 to 63). A JavaScript string is
  truthy exactly when it is not empty.
\<close>

definition onLibrary_single ::
    "MarkdownBuilders \<Rightarrow> Layer \<Rightarrow> Stack \<Rightarrow> Library \<Rightarrow>
     SingleFileLocals Scope \<Rightarrow> SingleFileLocals Scope" where
  "onLibrary_single b lay stk lib sc =
     (let v = locals sc;
          inclLayer = (lay \<noteq> previousLayer v);
          inclStack = (stk \<noteq> previousStack v);
          v1 = (if inclStack \<and> \<not> inclLayer \<and> previousStack v \<noteq> []
                then v\<lparr>markdownVar := markdownVar v @ newline\<rparr> else v);
          v2 = v1\<lparr>markdownVar := markdownVar v1 @ renderLibrarySection b
                 \<lparr>layer = lay, stack = stk, library = lib,
                  includeLayerHeader = inclLayer, includeStackHeader = inclStack\<rparr>\<rparr>
      in sc\<lparr>locals := v2\<lparr>previousLayer := lay, previousStack := stk\<rparr>\<rparr>)"

text \<open>
  \<open>generateLibraryMarkdown\<close> (lines 33 to 67). The method receives the two
  groupings; the model hands it the whole argument record and returns, with the
  string, the argument objects as the traversal leaves them.
\<close>

definition generateLibraryMarkdown ::
    "MarkdownBuilders \<Rightarrow> GenerateRulesArgs \<Rightarrow> string \<times> GenerateRulesArgs" where
  "generateLibraryMarkdown b a =
     (let sc = iterateLayersStacksLibraries (stacksByLayer a) (librariesByStack a)
                 (onLibrary_single b)
                 \<lparr>argumentObjects = a,
                  locals = \<lparr>markdownVar = [], previousLayer = [], previousStack = []\<rparr>\<rparr>
      in (markdownVar (locals sc), argumentObjects sc))"

text \<open>\<open>SingleFileRulesStrategy.generateRules\<close> (lines 15 to 31): the returned
  array and the argument objects after the call.\<close>

definition SingleFile_generateRules ::
    "MarkdownBuilders \<Rightarrow> string \<Rightarrow> string \<Rightarrow> GenerateRulesArgs \<Rightarrow>
     RulesContent list \<times> GenerateRulesArgs" where
  "SingleFile_generateRules b projectName projectDescription a =
     (if length (selectedLibraries a) = 0
      then (createEmptyProjectRulesContent b projectName projectDescription, a)
      else
        (let (libraryMarkdown, a') = generateLibraryMarkdown b a;
             md = createProjectMarkdown b projectName projectDescription @ libraryMarkdown
         in ([\<lparr>markdown = md, label = ''All Rules'', fileName = ''rules.mdc''\<rparr>], a')))"

section \<open>MultiFileRulesStrategy\<close>

text \<open>\<open>buildRulesContent\<close> (lines 65 to 83 of the second source file).\<close>

definition buildRulesContent ::
    "MarkdownBuilders \<Rightarrow> string \<Rightarrow> string \<Rightarrow> string \<Rightarrow> RulesContent" where
  "buildRulesContent b lay stk lib =
     (let (lbl, fname) = createLibraryFileMetadata b lay stk lib;
          md = renderLibrarySection b
                 \<lparr>layer = lay, stack = stk, library = lib,
                  includeLayerHeader = True, includeStackHeader = True\<rparr>
      in \<lparr>markdown = md, label = lbl, fileName = fname\<rparr>)"

text \<open>The callback of \<open>generateRules\<close>: \<open>markdowns.push(...)\<close>; its only local is
  the array \<open>markdowns\<close>.\<close>

definition onLibrary_multi ::
    "MarkdownBuilders \<Rightarrow> Layer \<Rightarrow> Stack \<Rightarrow> Library \<Rightarrow>
     RulesContent list Scope \<Rightarrow> RulesContent list Scope" where
  "onLibrary_multi b lay stk lib sc =
     sc\<lparr>locals := locals sc @ [buildRulesContent b lay stk lib]\<rparr>"

text \<open>\<open>MultiFileRulesStrategy.generateRules\<close> (lines 41 to 63).\<close>

definition MultiFile_generateRules ::
    "MarkdownBuilders \<Rightarrow> string \<Rightarrow> string \<Rightarrow> GenerateRulesArgs \<Rightarrow>
     RulesContent list \<times> GenerateRulesArgs" where
  "MultiFile_generateRules b projectName projectDescription a =
     (if length (selectedLibraries a) = 0
      then (createEmptyProjectRulesContent b projectName projectDescription, a)
      else
        (let sc = iterateLayersStacksLibraries (stacksByLayer a) (librariesByStack a)
                    (onLibrary_multi b)
                    \<lparr>argumentObjects = a,
                     locals = [createProjectRulesContent b projectName projectDescription]\<rparr>
         in (locals sc, argumentObjects sc)))"

section \<open>Reading the single-file markdown\<close>

text \<open>
  The text one call of the single-file callback appends to \<open>markdown\<close>, given the
  values of \<open>previousLayer\<close> and \<open>previousStack\<close> it finds: the optional \<open>'\n'\<close> of
  line 50 followed by the section of lines 53 to 59.
\<close>

definition appendedText ::
    "MarkdownBuilders \<Rightarrow> string \<Rightarrow> string \<Rightarrow> Layer \<Rightarrow> Stack \<Rightarrow> Library \<Rightarrow> string" where
  "appendedText b prevLayer prevStack lay stk lib =
     (if stk \<noteq> prevStack \<and> \<not> lay \<noteq> prevLayer \<and> prevStack \<noteq> [] then newline else []) @
     renderLibrarySection b
       \<lparr>layer = lay, stack = stk, library = lib,
        includeLayerHeader = (lay \<noteq> prevLayer), includeStackHeader = (stk \<noteq> prevStack)\<rparr>"

text \<open>The fragments successive callback calls append, one per visit; each call leaves
  its own layer and stack behind as \<open>previousLayer\<close> and \<open>previousStack\<close>.\<close>

fun libraryFragments ::
    "MarkdownBuilders \<Rightarrow> string \<Rightarrow> string \<Rightarrow> (Layer \<times> Stack \<times> Library) list \<Rightarrow>
     string list" where
  "libraryFragments b prevLayer prevStack [] = []"
| "libraryFragments b prevLayer prevStack ((lay, stk, lib) # vs) =
     appendedText b prevLayer prevStack lay stk lib # libraryFragments b lay stk vs"

section \<open>The header-emission rule in the specification's words\<close>

text \<open>
  Section 4.4 states the rule by first encounters: a Layer header on the first
  encounter of that Layer in traversal order, a Stack header on the first encounter of
  that Stack, and one blank line before a new Stack's content when the Stack does not
  also start a new Layer. \<open>firstEncounterFrom\<close> writes this down with the layers and
  stacks met so far; it is the statement the source is compared with, not a
  translation of the source. Each entry is the blank-line flag and the section to
  render.
\<close>

fun firstEncounterFrom ::
    "Layer list \<Rightarrow> Stack list \<Rightarrow> (Layer \<times> Stack \<times> Library) list \<Rightarrow>
     (bool \<times> LibrarySection) list" where
  "firstEncounterFrom seenLayers seenStacks [] = []"
| "firstEncounterFrom seenLayers seenStacks ((lay, stk, lib) # vs) =
     (let newLayer = (lay \<notin> set seenLayers);
          newStack = (stk \<notin> set seenStacks)
      in (newStack \<and> \<not> newLayer,
          \<lparr>layer = lay, stack = stk, library = lib,
           includeLayerHeader = newLayer, includeStackHeader = newStack\<rparr>)
         # firstEncounterFrom (lay # seenLayers) (stk # seenStacks) vs)"

definition firstEncounterSections ::
    "(Layer \<times> Stack \<times> Library) list \<Rightarrow> (bool \<times> LibrarySection) list" where
  "firstEncounterSections vs = firstEncounterFrom [] [] vs"

definition renderPlanned :: "MarkdownBuilders \<Rightarrow> bool \<times> LibrarySection \<Rightarrow> string" where
  "renderPlanned b p = (if fst p then newline else []) @ renderLibrarySection b (snd p)"

text \<open>The layers, and the stacks, whose header a list of sections asks for, in order.\<close>

definition layerHeadings :: "(bool \<times> LibrarySection) list \<Rightarrow> Layer list" where
  "layerHeadings plan = map layer (filter includeLayerHeader (map snd plan))"

definition stackHeadings :: "(bool \<times> LibrarySection) list \<Rightarrow> Stack list" where
  "stackHeadings plan = map stack (filter includeStackHeader (map snd plan))"

section \<open>Groupings derived from a selection\<close>

text \<open>
  Modelled from the spec: the shape of \<open>stacksByLayer\<close> as the Selection Model (not in
  the sources) derives it. Section 3: the keys of a \<open>Record\<close> are distinct Layers; each
  Stack "belongs to exactly one Layer" and is listed once, in taxonomy order; Layer
  and Stack are "stable string identifiers" of a closed enumeration, none of them the
  empty string.
\<close>

definition wellFormedGroupings :: "(Layer \<times> Stack list) list \<Rightarrow> bool" where
  "wellFormedGroupings sbl \<longleftrightarrow>
     distinct (map fst sbl) \<and> distinct (concat (map snd sbl)) \<and>
     [] \<notin> set (map fst sbl) \<and> [] \<notin> set (concat (map snd sbl))"

text \<open>
  Modelled from the spec: the groupings are views of the selection. Section 3 and
  4.3: the Selection has no duplicates, \<open>librariesByStack\<close> holds "only selected
  Libraries", and the traversal "visits every selected Library exactly once".
\<close>

definition groupingsOfSelection :: "GenerateRulesArgs \<Rightarrow> bool" where
  "groupingsOfSelection a \<longleftrightarrow>
     distinct (selectedLibraries a) \<and>
     distinct (map (\<lambda>v. snd (snd v)) (libraryVisits (stacksByLayer a) (librariesByStack a))) \<and>
     set (map (\<lambda>v. snd (snd v)) (libraryVisits (stacksByLayer a) (librariesByStack a))) =
       set (selectedLibraries a)"

text \<open>
  A list read left to right keeps equal elements together: an element met before is
  the previous one. \<open>seen\<close> are the elements already read and \<open>p\<close> the last of them.
\<close>

fun runsFrom :: "'a set \<Rightarrow> 'a \<Rightarrow> 'a list \<Rightarrow> bool" where
  "runsFrom seen p [] = True"
| "runsFrom seen p (x # xs) = ((x \<in> seen \<longrightarrow> x = p) \<and> runsFrom (insert x seen) x xs)"

section \<open>The selection-state store\<close>

text \<open>
  Modelled from the spec: the selection-state store (not in the sources), section
  4.5. Of its state only \<open>selectedLibraries\<close> and \<open>originalLibraries\<close> are read by
  \<open>isDirty\<close>; the derived groupings are recomputed from the selection and are left out.
  Both are sequences in insertion order.
\<close>

record TechStackStore =
  selectedLibraries_store :: "Library list"
  originalLibraries :: "Library list"

text \<open>Modelled from the spec: \<open>toggleLibrary(id)\<close> "flips membership of a Library in
  Selection".\<close>

definition toggleLibrary :: "Library \<Rightarrow> TechStackStore \<Rightarrow> TechStackStore" where
  "toggleLibrary lib s =
     (if lib \<in> set (selectedLibraries_store s)
      then s\<lparr>selectedLibraries_store := removeAll lib (selectedLibraries_store s)\<rparr>
      else s\<lparr>selectedLibraries_store := selectedLibraries_store s @ [lib]\<rparr>)"

text \<open>Modelled from the spec: \<open>loadOriginal(libraries)\<close> "replaces both current
  Selection and \<open>originalLibraries\<close> with the given set".\<close>

definition loadOriginal :: "Library list \<Rightarrow> TechStackStore \<Rightarrow> TechStackStore" where
  "loadOriginal libs s = s\<lparr>selectedLibraries_store := libs, originalLibraries := libs\<rparr>"

text \<open>Modelled from the spec: \<open>isDirty()\<close> is "true iff the set of currently selected
  Library identifiers differs (set inequality, not order) from \<open>originalLibraries\<close>".\<close>

definition isDirty :: "TechStackStore \<Rightarrow> bool" where
  "isDirty s \<longleftrightarrow> set (selectedLibraries_store s) \<noteq> set (originalLibraries s)"

section \<open>An instance of the builders for evaluation\<close>

text \<open>
  A concrete \<open>MarkdownBuilders\<close> on which the theorems below are evaluated at sample
  inputs. It is an example, not the repository's renderer: every theorem is stated for
  an arbitrary \<open>b\<close>.
\<close>

definition sampleBuilders :: MarkdownBuilders where
  "sampleBuilders =
     \<lparr>createProjectMarkdown = (\<lambda>n d. ''# '' @ n @ newline @ d @ newline),
      createProjectRulesContent = (\<lambda>n d.
        \<lparr>markdown = ''# '' @ n @ newline @ d @ newline,
         label = ''Project'', fileName = ''project.mdc''\<rparr>),
      emptyProjectDocument = (\<lambda>n d.
        \<lparr>markdown = ''# '' @ n @ newline @ d @ newline @ ''(no libraries)'',
         label = ''Project'', fileName = ''project.mdc''\<rparr>),
      renderLibrarySection = (\<lambda>s.
        (if includeLayerHeader s then ''## '' @ layer s @ newline else []) @
        (if includeStackHeader s then ''### '' @ stack s @ newline else []) @
        ''- '' @ library s @ newline),
      createLibraryFileMetadata = (\<lambda>l s x.
        (l @ '' - '' @ s @ '' - '' @ x, l @ ''-'' @ s @ ''-'' @ x @ ''.mdc''))\<rparr>"

definition sampleArgs :: GenerateRulesArgs where
  "sampleArgs =
     \<lparr>selectedLibraries = [''react-query'', ''pinia'', ''helmet''],
      stacksByLayer = [(''Frontend'', [''React'', ''Vue'']), (''Backend'', [''Express''])],
      librariesByStack = [(''React'', [''react-query'']), (''Vue'', [''pinia'']),
                          (''Express'', [''helmet''])]\<rparr>"

definition sampleStore :: TechStackStore where
  "sampleStore =
     \<lparr>selectedLibraries_store = [''react-query'', ''zustand''],
      originalLibraries = [''react-query'']\<rparr>"

section \<open>The traversal as a fold over its visits\<close>

lemma iterate_as_visits:
  "iterateLayersStacksLibraries sbl lbs f s =
     fold (\<lambda>(lay, stk, lib). f lay stk lib) (libraryVisits sbl lbs) s"
proof -
  have inner: "fold (\<lambda>lib. f lay stk lib) libs s =
      fold (\<lambda>(lay, stk, lib). f lay stk lib) (map (\<lambda>lib. (lay, stk, lib)) libs) s"
    for lay stk libs s
    by (induction libs arbitrary: s) simp_all
  have middle: "fold (\<lambda>stk. fold (\<lambda>lib. f lay stk lib) (librariesOf lbs stk)) stacks s =
      fold (\<lambda>(lay, stk, lib). f lay stk lib)
        (concat (map (\<lambda>stk. map (\<lambda>lib. (lay, stk, lib)) (librariesOf lbs stk)) stacks)) s"
    for lay stacks s
    by (induction stacks arbitrary: s) (simp_all add: inner)
  have outer: "fold (\<lambda>(lay, stacks).
        fold (\<lambda>stk. fold (\<lambda>lib. f lay stk lib) (librariesOf lbs stk)) stacks) sbl s =
      fold (\<lambda>(lay, stk, lib). f lay stk lib) (libraryVisits sbl lbs) s"
    for s
    unfolding libraryVisits_def
    by (induction sbl arbitrary: s) (simp_all add: middle split: prod.splits)
  show ?thesis
    unfolding iterateLayersStacksLibraries_def by (rule outer)
qed

section \<open>The single-file markdown as a list of fragments\<close>

lemma fold_onLibrary_single_markdown:
  "markdownVar (locals (fold (\<lambda>(lay, stk, lib). onLibrary_single b lay stk lib) vs sc)) =
     markdownVar (locals sc) @
     concat (libraryFragments b (previousLayer (locals sc)) (previousStack (locals sc)) vs)"
proof (induction vs arbitrary: sc)
  case Nil
  then show ?case by simp
next
  case (Cons v vs)
  obtain lay stk lib where v: "v = (lay, stk, lib)" by (cases v) auto
  show ?case
    by (simp add: v Cons.IH) (simp add: onLibrary_single_def appendedText_def Let_def)
qed

lemma generateLibraryMarkdown_fragments:
  "fst (generateLibraryMarkdown b a) =
     concat (libraryFragments b [] [] (libraryVisits (stacksByLayer a) (librariesByStack a)))"
  by (simp add: generateLibraryMarkdown_def Let_def iterate_as_visits
      fold_onLibrary_single_markdown)

lemma length_libraryFragments: "length (libraryFragments b pl ps vs) = length vs"
  by (induction vs arbitrary: pl ps) auto

lemma fragments_per_library:
  "list_all2 (\<lambda>frag v. \<exists>il is. suffix (renderLibrarySection b
       \<lparr>layer = fst v, stack = fst (snd v), library = snd (snd v),
        includeLayerHeader = il, includeStackHeader = is\<rparr>) frag)
     (libraryFragments b pl ps vs) vs"
proof (induction vs arbitrary: pl ps)
  case Nil
  then show ?case by simp
next
  case (Cons v vs)
  obtain lay stk lib where v: "v = (lay, stk, lib)" by (cases v) auto
  have "\<exists>il is. suffix (renderLibrarySection b
       \<lparr>layer = lay, stack = stk, library = lib,
        includeLayerHeader = il, includeStackHeader = is\<rparr>) (appendedText b pl ps lay stk lib)"
    unfolding appendedText_def by (intro exI suffixI) (rule refl)
  then show ?case using Cons.IH[of lay stk] by (simp add: v)
qed

section \<open>Grouped traversals\<close>

text \<open>On a traversal that keeps equal layers and equal stacks together, and whose
  identifiers are not empty, comparing with the previous layer and stack is the same
  as asking for a first encounter.\<close>

lemma fragments_first_encounter:
  assumes "runsFrom (set seenL) pl (map fst vs)"
    and "runsFrom (set seenS) ps (map (\<lambda>v. fst (snd v)) vs)"
    and "[] \<notin> set (map fst vs)" and "[] \<notin> set (map (\<lambda>v. fst (snd v)) vs)"
    and "pl \<in> set seenL \<or> pl = []" and "ps \<in> set seenS \<or> ps = []"
    and "pl \<noteq> [] \<longrightarrow> ps \<noteq> []"
  shows "libraryFragments b pl ps vs = map (renderPlanned b) (firstEncounterFrom seenL seenS vs)"
  using assms
proof (induction vs arbitrary: pl ps seenL seenS)
  case Nil
  then show ?case by simp
next
  case (Cons v vs)
  obtain lay stk lib where v: "v = (lay, stk, lib)" by (cases v) auto
  from Cons.prems v have ne: "lay \<noteq> []" "stk \<noteq> []" by auto
  from Cons.prems(1) v have rl: "lay \<in> set seenL \<longrightarrow> lay = pl"
    and rl': "runsFrom (set (lay # seenL)) lay (map fst vs)" by auto
  from Cons.prems(2) v have rs: "stk \<in> set seenS \<longrightarrow> stk = ps"
    and rs': "runsFrom (set (stk # seenS)) stk (map (\<lambda>v. fst (snd v)) vs)" by auto
  have newL: "(lay = pl) = (lay \<in> set seenL)"
    using rl Cons.prems(5) ne by auto
  have newS: "(stk = ps) = (stk \<in> set seenS)"
    using rs Cons.prems(6) ne by auto
  have psne: "lay \<in> set seenL \<Longrightarrow> ps \<noteq> []"
    using newL Cons.prems(7) ne by auto
  have head: "appendedText b pl ps lay stk lib =
      renderPlanned b (stk \<notin> set seenS \<and> \<not> lay \<notin> set seenL,
        \<lparr>layer = lay, stack = stk, library = lib,
         includeLayerHeader = (lay \<notin> set seenL), includeStackHeader = (stk \<notin> set seenS)\<rparr>)"
    using psne by (auto simp: appendedText_def renderPlanned_def newL newS)
  have tail: "libraryFragments b lay stk vs =
      map (renderPlanned b) (firstEncounterFrom (lay # seenL) (stk # seenS) vs)"
  proof (rule Cons.IH[OF rl' rs'])
    show "[] \<notin> set (map fst vs)" using Cons.prems(3) by simp
    show "[] \<notin> set (map (\<lambda>v. fst (snd v)) vs)" using Cons.prems(4) by simp
    show "lay \<in> set (lay # seenL) \<or> lay = []" by simp
    show "stk \<in> set (stk # seenS) \<or> stk = []" by simp
    show "lay \<noteq> [] \<longrightarrow> stk \<noteq> []" using ne by simp
  qed
  show ?case by (simp add: v head tail Let_def)
qed

text \<open>The traversal of well-formed groupings is such a list: a sequence of blocks with
  distinct keys.\<close>

lemma runsFrom_replicate:
  "runsFrom (insert k seen) k rest \<Longrightarrow> runsFrom (insert k seen) k (replicate j k @ rest)"
  by (induction j) (simp_all add: insert_absorb2)

lemma runsFrom_block:
  assumes "k \<notin> seen" and "runsFrom seen p rest" and "runsFrom (insert k seen) k rest"
  shows "runsFrom seen p (replicate m k @ rest)"
proof (cases m)
  case 0
  then show ?thesis using assms by simp
next
  case (Suc j)
  then show ?thesis using assms runsFrom_replicate[of k seen rest j] by simp
qed

lemma runsFrom_blocks:
  "distinct (map key xs) \<Longrightarrow> seen \<inter> set (map key xs) = {} \<Longrightarrow>
   runsFrom seen p (concat (map (\<lambda>x. replicate (cnt x) (key x)) xs))"
proof (induction xs arbitrary: seen p)
  case Nil
  then show ?case by simp
next
  case (Cons x xs)
  from Cons.prems have d: "distinct (map key xs)" and k1: "key x \<notin> key ` set xs"
    and k2: "key x \<notin> seen" and s: "seen \<inter> set (map key xs) = {}" by auto
  have a: "runsFrom seen p (concat (map (\<lambda>x. replicate (cnt x) (key x)) xs))"
    by (rule Cons.IH[OF d s])
  have b: "runsFrom (insert (key x) seen) (key x) (concat (map (\<lambda>x. replicate (cnt x) (key x)) xs))"
    by (rule Cons.IH[OF d]) (use k1 s in auto)
  show ?case using runsFrom_block[OF k2 a b] by simp
qed

lemma layers_of_stack_visits:
  "map fst (concat (map (\<lambda>stk. map (\<lambda>lib. (lay, stk, lib)) (librariesOf lbs stk)) stacks)) =
     replicate (length (concat (map (librariesOf lbs) stacks))) lay"
  by (induction stacks) (simp_all add: replicate_add map_replicate_const comp_def)

lemma layers_of_visits:
  "map fst (libraryVisits sbl lbs) =
     concat (map (\<lambda>x. replicate (length (concat (map (librariesOf lbs) (snd x)))) (fst x)) sbl)"
  unfolding libraryVisits_def
  by (induction sbl) (simp_all add: layers_of_stack_visits split: prod.splits)

lemma stacks_of_stack_visits:
  "map (\<lambda>v. fst (snd v))
     (concat (map (\<lambda>stk. map (\<lambda>lib. (lay, stk, lib)) (librariesOf lbs stk)) stacks)) =
     concat (map (\<lambda>stk. replicate (length (librariesOf lbs stk)) stk) stacks)"
  by (induction stacks) (simp_all add: map_replicate_const comp_def)

lemma stacks_of_visits:
  "map (\<lambda>v. fst (snd v)) (libraryVisits sbl lbs) =
     concat (map (\<lambda>stk. replicate (length (librariesOf lbs stk)) stk) (concat (map snd sbl)))"
  unfolding libraryVisits_def
  by (induction sbl) (simp_all add: stacks_of_stack_visits split: prod.splits)

lemma visited_layers_subset: "set (map fst (libraryVisits sbl lbs)) \<subseteq> set (map fst sbl)"
  by (force simp: libraryVisits_def)

lemma visited_stacks_subset:
  "set (map (\<lambda>v. fst (snd v)) (libraryVisits sbl lbs)) \<subseteq> set (concat (map snd sbl))"
  by (force simp: libraryVisits_def)

lemma wellFormed_fragments:
  assumes "wellFormedGroupings sbl"
  shows "libraryFragments b [] [] (libraryVisits sbl lbs) =
     map (renderPlanned b) (firstEncounterSections (libraryVisits sbl lbs))"
  unfolding firstEncounterSections_def
proof (rule fragments_first_encounter)
  from assms have d1: "distinct (map fst sbl)" and d2: "distinct (concat (map snd sbl))"
    and n1: "[] \<notin> set (map fst sbl)" and n2: "[] \<notin> set (concat (map snd sbl))"
    by (simp_all add: wellFormedGroupings_def)
  show "runsFrom (set []) [] (map fst (libraryVisits sbl lbs))"
    unfolding layers_of_visits
    by (rule runsFrom_blocks) (use d1 in simp_all)
  show "runsFrom (set []) [] (map (\<lambda>v. fst (snd v)) (libraryVisits sbl lbs))"
    unfolding stacks_of_visits
    by (rule runsFrom_blocks[where key = "\<lambda>x. x"]) (use d2 in simp_all)
  show "[] \<notin> set (map fst (libraryVisits sbl lbs))"
    using n1 visited_layers_subset[of sbl lbs] by blast
  show "[] \<notin> set (map (\<lambda>v. fst (snd v)) (libraryVisits sbl lbs))"
    using n2 visited_stacks_subset[of sbl lbs] by blast
qed simp_all


lemma layerHeadings_firstEncounterFrom:
  "distinct (layerHeadings (firstEncounterFrom seenL seenS vs)) \<and>
   set (layerHeadings (firstEncounterFrom seenL seenS vs)) = set (map fst vs) - set seenL \<and>
   subseq (layerHeadings (firstEncounterFrom seenL seenS vs)) (map fst vs)"
proof (induction vs arbitrary: seenL seenS)
  case Nil
  then show ?case by (simp add: layerHeadings_def)
next
  case (Cons v vs)
  obtain lay stk lib where v: "v = (lay, stk, lib)" by (cases v) auto
  note IH = Cons.IH[of "lay # seenL" "stk # seenS"]
  show ?case
    using IH by (auto simp: v layerHeadings_def Let_def)
qed

lemma stackHeadings_firstEncounterFrom:
  "distinct (stackHeadings (firstEncounterFrom seenL seenS vs)) \<and>
   set (stackHeadings (firstEncounterFrom seenL seenS vs)) =
     set (map (\<lambda>v. fst (snd v)) vs) - set seenS \<and>
   subseq (stackHeadings (firstEncounterFrom seenL seenS vs)) (map (\<lambda>v. fst (snd v)) vs)"
proof (induction vs arbitrary: seenL seenS)
  case Nil
  then show ?case by (simp add: stackHeadings_def)
next
  case (Cons v vs)
  obtain lay stk lib where v: "v = (lay, stk, lib)" by (cases v) auto
  note IH = Cons.IH[of "lay # seenL" "stk # seenS"]
  show ?case
    using IH by (auto simp: v stackHeadings_def Let_def)
qed

section \<open>Effects of the callbacks\<close>

lemma fold_preserves_argumentObjects:
  assumes "\<And>lay stk lib sc. argumentObjects (f lay stk lib sc) = argumentObjects sc"
  shows "argumentObjects (fold (\<lambda>(lay, stk, lib). f lay stk lib) vs sc) = argumentObjects sc"
  by (induction vs arbitrary: sc) (simp_all add: assms split: prod.splits)

lemma onLibrary_single_frame:
  "argumentObjects (onLibrary_single b lay stk lib sc) = argumentObjects sc"
  by (simp add: onLibrary_single_def Let_def)

lemma onLibrary_multi_frame:
  "argumentObjects (onLibrary_multi b lay stk lib sc) = argumentObjects sc"
  by (simp add: onLibrary_multi_def)

lemma fold_onLibrary_multi_locals:
  "locals (fold (\<lambda>(lay, stk, lib). onLibrary_multi b lay stk lib) vs sc) =
     locals sc @ map (\<lambda>(lay, stk, lib). buildRulesContent b lay stk lib) vs"
  by (induction vs arbitrary: sc) (simp_all add: onLibrary_multi_def split: prod.splits)

section \<open>The result of a non-empty selection\<close>

lemma SingleFile_nonempty:
  "sel \<noteq> [] \<Longrightarrow> selectedLibraries a = sel \<Longrightarrow>
   fst (SingleFile_generateRules b pn pd a) =
     [\<lparr>markdown = createProjectMarkdown b pn pd @
          concat (libraryFragments b [] [] (libraryVisits (stacksByLayer a) (librariesByStack a))),
       label = ''All Rules'', fileName = ''rules.mdc''\<rparr>]"
  by (simp add: SingleFile_generateRules_def Let_def case_prod_unfold
      generateLibraryMarkdown_fragments)

lemma MultiFile_nonempty:
  "sel \<noteq> [] \<Longrightarrow> selectedLibraries a = sel \<Longrightarrow>
   fst (MultiFile_generateRules b pn pd a) =
     createProjectRulesContent b pn pd #
     map (\<lambda>(lay, stk, lib). buildRulesContent b lay stk lib)
       (libraryVisits (stacksByLayer a) (librariesByStack a))"
  by (simp add: MultiFile_generateRules_def Let_def iterate_as_visits fold_onLibrary_multi_locals)

section \<open>Toggling in the store\<close>

lemma toggle_twice_set:
  "set (selectedLibraries_store (toggleLibrary x (toggleLibrary x s))) =
     set (selectedLibraries_store s)"
  by (auto simp: toggleLibrary_def)

lemma toggle_twice_original:
  "originalLibraries (toggleLibrary x s) = originalLibraries s"
  by (auto simp: toggleLibrary_def)

lemma toggle_set:
  "set (selectedLibraries_store (toggleLibrary x s)) =
     (if x \<in> set (selectedLibraries_store s)
      then set (selectedLibraries_store s) - {x}
      else insert x (set (selectedLibraries_store s)))"
  by (auto simp: toggleLibrary_def)

lemma toggle_changes_set:
  "set (selectedLibraries_store (toggleLibrary x s)) \<noteq> set (selectedLibraries_store s)"
  by (auto simp: toggleLibrary_def)

section \<open>The sample inputs evaluated\<close>

lemma sampleBuilders_fields:
  "createProjectMarkdown sampleBuilders n d = ''# '' @ n @ newline @ d @ newline"
  "createProjectRulesContent sampleBuilders n d =
     \<lparr>markdown = ''# '' @ n @ newline @ d @ newline,
      label = ''Project'', fileName = ''project.mdc''\<rparr>"
  "emptyProjectDocument sampleBuilders n d =
     \<lparr>markdown = ''# '' @ n @ newline @ d @ newline @ ''(no libraries)'',
      label = ''Project'', fileName = ''project.mdc''\<rparr>"
  "renderLibrarySection sampleBuilders sec =
     (if includeLayerHeader sec then ''## '' @ layer sec @ newline else []) @
     (if includeStackHeader sec then ''### '' @ stack sec @ newline else []) @
     ''- '' @ library sec @ newline"
  "createLibraryFileMetadata sampleBuilders l s x =
     (l @ '' - '' @ s @ '' - '' @ x, l @ ''-'' @ s @ ''-'' @ x @ ''.mdc'')"
  by (simp_all add: sampleBuilders_def)

lemma sample_visits:
  "libraryVisits (stacksByLayer sampleArgs) (librariesByStack sampleArgs) =
     [(''Frontend'', ''React'', ''react-query''), (''Frontend'', ''Vue'', ''pinia''),
      (''Backend'', ''Express'', ''helmet'')]"
  by (simp add: libraryVisits_def sampleArgs_def librariesOf_def)

section \<open>Single-file generation\<close>

text \<open>
  Claim C1. For a non-empty selection whose groupings are the views the Selection
  Model derives (distinct layers, every stack under one layer and listed once, no
  empty identifier), the markdown of the single-file document is the project header
  followed by the sections the first-encounter rule asks for: a section carries the
  Layer header exactly when its layer was not met earlier in the traversal, the Stack
  header exactly when its stack was not met earlier, and is preceded by one
  \<open>newline\<close> exactly when it starts a new stack without starting a new layer.
  Consequently the layers whose header is emitted are the visited layers, each once,
  in traversal order, and likewise the stacks.
\<close>

theorem single_file_header_emission:
  assumes "selectedLibraries a \<noteq> []" and "wellFormedGroupings (stacksByLayer a)"
  shows "(let vs = libraryVisits (stacksByLayer a) (librariesByStack a);
              plan = firstEncounterSections vs
          in map markdown (fst (SingleFile_generateRules b pn pd a)) =
               [createProjectMarkdown b pn pd @ concat (map (renderPlanned b) plan)] \<and>
             distinct (layerHeadings plan) \<and>
             set (layerHeadings plan) = set (map fst vs) \<and>
             subseq (layerHeadings plan) (map fst vs) \<and>
             distinct (stackHeadings plan) \<and>
             set (stackHeadings plan) = set (map (\<lambda>v. fst (snd v)) vs) \<and>
             subseq (stackHeadings plan) (map (\<lambda>v. fst (snd v)) vs))"
proof -
  let ?vs = "libraryVisits (stacksByLayer a) (librariesByStack a)"
  have md: "map markdown (fst (SingleFile_generateRules b pn pd a)) =
      [createProjectMarkdown b pn pd @
       concat (map (renderPlanned b) (firstEncounterSections ?vs))]"
    using SingleFile_nonempty[OF assms(1) refl, of b pn pd]
      wellFormed_fragments[OF assms(2), of b "librariesByStack a"]
    by simp
  have lh: "distinct (layerHeadings (firstEncounterSections ?vs)) \<and>
      set (layerHeadings (firstEncounterSections ?vs)) = set (map fst ?vs) \<and>
      subseq (layerHeadings (firstEncounterSections ?vs)) (map fst ?vs)"
    using layerHeadings_firstEncounterFrom[of "[]" "[]" ?vs]
    by (simp add: firstEncounterSections_def)
  have sh: "distinct (stackHeadings (firstEncounterSections ?vs)) \<and>
      set (stackHeadings (firstEncounterSections ?vs)) = set (map (\<lambda>v. fst (snd v)) ?vs) \<and>
      subseq (stackHeadings (firstEncounterSections ?vs)) (map (\<lambda>v. fst (snd v)) ?vs)"
    using stackHeadings_firstEncounterFrom[of "[]" "[]" ?vs]
    by (simp add: firstEncounterSections_def)
  show ?thesis
    unfolding Let_def using md lh sh by blast
qed

theorem single_file_header_emission_witness:
  "selectedLibraries sampleArgs \<noteq> [] \<and> wellFormedGroupings (stacksByLayer sampleArgs) \<and>
   map markdown (fst (SingleFile_generateRules sampleBuilders ''Acme'' ''Demo'' sampleArgs)) =
     [''# Acme'' @ newline @ ''Demo'' @ newline @
      ''## Frontend'' @ newline @ ''### React'' @ newline @ ''- react-query'' @ newline @
      newline @ ''### Vue'' @ newline @ ''- pinia'' @ newline @
      ''## Backend'' @ newline @ ''### Express'' @ newline @ ''- helmet'' @ newline] \<and>
   layerHeadings (firstEncounterSections
     (libraryVisits (stacksByLayer sampleArgs) (librariesByStack sampleArgs))) =
     [''Frontend'', ''Backend''] \<and>
   stackHeadings (firstEncounterSections
     (libraryVisits (stacksByLayer sampleArgs) (librariesByStack sampleArgs))) =
     [''React'', ''Vue'', ''Express'']"
proof -
  have h1: "selectedLibraries sampleArgs \<noteq> []" by (simp add: sampleArgs_def)
  have h2: "wellFormedGroupings (stacksByLayer sampleArgs)"
    by (simp add: wellFormedGroupings_def sampleArgs_def)
  show ?thesis
    using h1 h2 single_file_header_emission[OF h1 h2, of sampleBuilders "''Acme''" "''Demo''"]
    by (simp add: sample_visits firstEncounterSections_def layerHeadings_def stackHeadings_def
        renderPlanned_def sampleBuilders_fields Let_def)
qed

text \<open>
  The source decides by comparing with the previous layer and stack. On a traversal
  that returns to a stack it has left, as no derived grouping does, that comparison
  emits the stack header again and the first-encounter rule does not.
\<close>

lemma previous_comparison_on_repeated_stack:
  "libraryFragments sampleBuilders [] []
     (libraryVisits [(''Frontend'', [''React'', ''Vue'', ''React''])]
        [(''React'', [''react-query'']), (''Vue'', [''pinia''])]) \<noteq>
   map (renderPlanned sampleBuilders) (firstEncounterSections
     (libraryVisits [(''Frontend'', [''React'', ''Vue'', ''React''])]
        [(''React'', [''react-query'']), (''Vue'', [''pinia''])]))"
  by (simp add: libraryVisits_def librariesOf_def firstEncounterSections_def
      appendedText_def renderPlanned_def sampleBuilders_fields newline_def)

text \<open>
  Claim C8. For a non-empty selection the single-file strategy returns exactly one
  document; its label is \<open>All Rules\<close>, its file name is the constant \<open>rules.mdc\<close>,
  and its markdown is the project header followed by one fragment per visited
  library, each fragment ending with that library's rendered section.
\<close>

theorem single_file_one_document:
  assumes "selectedLibraries a \<noteq> []"
  shows "(let vs = libraryVisits (stacksByLayer a) (librariesByStack a);
              frags = libraryFragments b [] [] vs
          in fst (SingleFile_generateRules b pn pd a) =
               [\<lparr>markdown = createProjectMarkdown b pn pd @ concat frags,
                 label = ''All Rules'', fileName = ''rules.mdc''\<rparr>] \<and>
             list_all2 (\<lambda>frag v. \<exists>il is. suffix (renderLibrarySection b
                 \<lparr>layer = fst v, stack = fst (snd v), library = snd (snd v),
                  includeLayerHeader = il, includeStackHeader = is\<rparr>) frag) frags vs)"
  unfolding Let_def
  using SingleFile_nonempty[OF assms refl, of b pn pd] fragments_per_library[of b "[]" "[]"]
  by simp

theorem single_file_one_document_witness:
  "selectedLibraries sampleArgs \<noteq> [] \<and>
   fst (SingleFile_generateRules sampleBuilders ''Acme'' ''Demo'' sampleArgs) =
     [\<lparr>markdown = ''# Acme'' @ newline @ ''Demo'' @ newline @
        concat [''## Frontend'' @ newline @ ''### React'' @ newline @ ''- react-query'' @ newline,
          newline @ ''### Vue'' @ newline @ ''- pinia'' @ newline,
          ''## Backend'' @ newline @ ''### Express'' @ newline @ ''- helmet'' @ newline],
       label = ''All Rules'', fileName = ''rules.mdc''\<rparr>]"
proof -
  have h: "selectedLibraries sampleArgs \<noteq> []" by (simp add: sampleArgs_def)
  show ?thesis
    using h single_file_one_document[OF h, of sampleBuilders "''Acme''" "''Demo''"]
    by (simp add: sample_visits appendedText_def sampleBuilders_fields Let_def)
qed

section \<open>Multi-file generation\<close>

text \<open>
  Claim C2. For a non-empty selection the multi-file strategy returns the
  project-summary document first, followed by one document per visited library in
  traversal order, each rendered with both the Layer and the Stack header and
  labelled and named by \<open>createLibraryFileMetadata\<close>. When the groupings are the
  views of the selection, that is one document per selected library.
\<close>

theorem multi_file_one_document_per_library:
  assumes "selectedLibraries a \<noteq> []"
  shows "fst (MultiFile_generateRules b pn pd a) =
           createProjectRulesContent b pn pd #
           map (\<lambda>(lay, stk, lib).
                 \<lparr>markdown = renderLibrarySection b
                    \<lparr>layer = lay, stack = stk, library = lib,
                     includeLayerHeader = True, includeStackHeader = True\<rparr>,
                  label = fst (createLibraryFileMetadata b lay stk lib),
                  fileName = snd (createLibraryFileMetadata b lay stk lib)\<rparr>)
             (libraryVisits (stacksByLayer a) (librariesByStack a)) \<and>
         (groupingsOfSelection a \<longrightarrow>
            length (fst (MultiFile_generateRules b pn pd a)) = Suc (length (selectedLibraries a)))"
proof -
  let ?vs = "libraryVisits (stacksByLayer a) (librariesByStack a)"
  have docs: "fst (MultiFile_generateRules b pn pd a) =
      createProjectRulesContent b pn pd #
      map (\<lambda>(lay, stk, lib). buildRulesContent b lay stk lib) ?vs"
    by (rule MultiFile_nonempty[OF assms refl])
  have build: "buildRulesContent b lay stk lib =
      \<lparr>markdown = renderLibrarySection b
         \<lparr>layer = lay, stack = stk, library = lib,
          includeLayerHeader = True, includeStackHeader = True\<rparr>,
       label = fst (createLibraryFileMetadata b lay stk lib),
       fileName = snd (createLibraryFileMetadata b lay stk lib)\<rparr>" for lay stk lib
    by (simp add: buildRulesContent_def case_prod_unfold Let_def)
  have count: "length ?vs = length (selectedLibraries a)" if "groupingsOfSelection a"
  proof -
    from that have d1: "distinct (selectedLibraries a)"
      and d2: "distinct (map (\<lambda>v. snd (snd v)) ?vs)"
      and eq: "set (map (\<lambda>v. snd (snd v)) ?vs) = set (selectedLibraries a)"
      by (simp_all add: groupingsOfSelection_def)
    have "length ?vs = length (map (\<lambda>v. snd (snd v)) ?vs)" by simp
    also have "\<dots> = card (set (map (\<lambda>v. snd (snd v)) ?vs))"
      using d2 by (rule distinct_card[symmetric])
    also have "\<dots> = card (set (selectedLibraries a))" by (simp only: eq)
    also have "\<dots> = length (selectedLibraries a)" using d1 by (rule distinct_card)
    finally show ?thesis .
  qed
  show ?thesis
    using count by (simp add: docs build)
qed

theorem multi_file_one_document_per_library_witness:
  "selectedLibraries sampleArgs \<noteq> [] \<and> groupingsOfSelection sampleArgs \<and>
   fst (MultiFile_generateRules sampleBuilders ''Acme'' ''Demo'' sampleArgs) =
     [\<lparr>markdown = ''# Acme'' @ newline @ ''Demo'' @ newline,
       label = ''Project'', fileName = ''project.mdc''\<rparr>,
      \<lparr>markdown = ''## Frontend'' @ newline @ ''### React'' @ newline @ ''- react-query'' @ newline,
       label = ''Frontend - React - react-query'',
       fileName = ''Frontend-React-react-query.mdc''\<rparr>,
      \<lparr>markdown = ''## Frontend'' @ newline @ ''### Vue'' @ newline @ ''- pinia'' @ newline,
       label = ''Frontend - Vue - pinia'', fileName = ''Frontend-Vue-pinia.mdc''\<rparr>,
      \<lparr>markdown = ''## Backend'' @ newline @ ''### Express'' @ newline @ ''- helmet'' @ newline,
       label = ''Backend - Express - helmet'', fileName = ''Backend-Express-helmet.mdc''\<rparr>] \<and>
   length (fst (MultiFile_generateRules sampleBuilders ''Acme'' ''Demo'' sampleArgs)) =
     Suc (length (selectedLibraries sampleArgs))"
proof -
  have h1: "selectedLibraries sampleArgs \<noteq> []" by (simp add: sampleArgs_def)
  have h2: "groupingsOfSelection sampleArgs"
    by (simp add: groupingsOfSelection_def sample_visits) (simp add: sampleArgs_def)
  show ?thesis
    using h1 h2 multi_file_one_document_per_library[OF h1, of sampleBuilders "''Acme''" "''Demo''"]
    by (simp add: sample_visits sampleBuilders_fields) (simp add: sampleArgs_def)
qed

section \<open>Both strategies\<close>

text \<open>
  Claim C3. With an empty \<open>selectedLibraries\<close> either strategy returns exactly one
  document, the empty-project fallback. The result is the same whatever the
  groupings hold and whatever \<open>renderLibrarySection\<close> would render, so nothing is
  traversed and no Layer or Stack header reaches the output.
\<close>

theorem empty_selection_fallback:
  "fst (SingleFile_generateRules (b\<lparr>renderLibrarySection := r\<rparr>) pn pd
          \<lparr>selectedLibraries = [], stacksByLayer = sbl, librariesByStack = lbs\<rparr>) =
     createEmptyProjectRulesContent b pn pd \<and>
   fst (MultiFile_generateRules (b\<lparr>renderLibrarySection := r\<rparr>) pn pd
          \<lparr>selectedLibraries = [], stacksByLayer = sbl, librariesByStack = lbs\<rparr>) =
     createEmptyProjectRulesContent b pn pd \<and>
   createEmptyProjectRulesContent b pn pd = [emptyProjectDocument b pn pd]"
  by (simp add: SingleFile_generateRules_def MultiFile_generateRules_def
      createEmptyProjectRulesContent_def)

theorem empty_selection_fallback_witness:
  "fst (SingleFile_generateRules (sampleBuilders\<lparr>renderLibrarySection := (\<lambda>s. ''## header'')\<rparr>)
          ''Acme'' ''Demo''
          \<lparr>selectedLibraries = [], stacksByLayer = stacksByLayer sampleArgs,
           librariesByStack = librariesByStack sampleArgs\<rparr>) =
     [\<lparr>markdown = ''# Acme'' @ newline @ ''Demo'' @ newline @ ''(no libraries)'',
       label = ''Project'', fileName = ''project.mdc''\<rparr>] \<and>
   fst (MultiFile_generateRules (sampleBuilders\<lparr>renderLibrarySection := (\<lambda>s. ''## header'')\<rparr>)
          ''Acme'' ''Demo''
          \<lparr>selectedLibraries = [], stacksByLayer = stacksByLayer sampleArgs,
           librariesByStack = librariesByStack sampleArgs\<rparr>) =
     [\<lparr>markdown = ''# Acme'' @ newline @ ''Demo'' @ newline @ ''(no libraries)'',
       label = ''Project'', fileName = ''project.mdc''\<rparr>]"
  using empty_selection_fallback[where b = sampleBuilders and r = "\<lambda>s. ''## header''"
      and pn = "''Acme''" and pd = "''Demo''"
      and sbl = "stacksByLayer sampleArgs" and lbs = "librariesByStack sampleArgs"]
  by (simp add: createEmptyProjectRulesContent_def sampleBuilders_fields)

text \<open>
  Claim C4. With the project, the builders and the groupings fixed, two selections
  that are equal as sets, in whatever order, give the same output sequence, for
  either strategy.
\<close>

theorem generateRules_selection_order_independent:
  assumes "set sel = set sel'"
  shows "fst (SingleFile_generateRules b pn pd
                \<lparr>selectedLibraries = sel, stacksByLayer = sbl, librariesByStack = lbs\<rparr>) =
         fst (SingleFile_generateRules b pn pd
                \<lparr>selectedLibraries = sel', stacksByLayer = sbl, librariesByStack = lbs\<rparr>) \<and>
         fst (MultiFile_generateRules b pn pd
                \<lparr>selectedLibraries = sel, stacksByLayer = sbl, librariesByStack = lbs\<rparr>) =
         fst (MultiFile_generateRules b pn pd
                \<lparr>selectedLibraries = sel', stacksByLayer = sbl, librariesByStack = lbs\<rparr>)"
proof (cases "sel = []")
  case True
  with assms have "sel' = []" by simp
  with True show ?thesis
    by (simp add: SingleFile_generateRules_def MultiFile_generateRules_def)
next
  case False
  with assms have ne: "sel' \<noteq> []" by auto
  show ?thesis
    using SingleFile_nonempty[OF False, of _ b pn pd] SingleFile_nonempty[OF ne, of _ b pn pd]
      MultiFile_nonempty[OF False, of _ b pn pd] MultiFile_nonempty[OF ne, of _ b pn pd]
    by simp
qed

theorem generateRules_selection_order_independent_witness:
  "set [''react-query'', ''pinia'', ''helmet''] = set [''pinia'', ''helmet'', ''react-query''] \<and>
   fst (SingleFile_generateRules sampleBuilders ''Acme'' ''Demo''
          \<lparr>selectedLibraries = [''react-query'', ''pinia'', ''helmet''],
           stacksByLayer = stacksByLayer sampleArgs,
           librariesByStack = librariesByStack sampleArgs\<rparr>) =
   fst (SingleFile_generateRules sampleBuilders ''Acme'' ''Demo''
          \<lparr>selectedLibraries = [''pinia'', ''helmet'', ''react-query''],
           stacksByLayer = stacksByLayer sampleArgs,
           librariesByStack = librariesByStack sampleArgs\<rparr>) \<and>
   fst (MultiFile_generateRules sampleBuilders ''Acme'' ''Demo''
          \<lparr>selectedLibraries = [''react-query'', ''pinia'', ''helmet''],
           stacksByLayer = stacksByLayer sampleArgs,
           librariesByStack = librariesByStack sampleArgs\<rparr>) =
   fst (MultiFile_generateRules sampleBuilders ''Acme'' ''Demo''
          \<lparr>selectedLibraries = [''pinia'', ''helmet'', ''react-query''],
           stacksByLayer = stacksByLayer sampleArgs,
           librariesByStack = librariesByStack sampleArgs\<rparr>)"
proof -
  have h: "set [''react-query'', ''pinia'', ''helmet''] = set [''pinia'', ''helmet'', ''react-query'']"
    by auto
  show ?thesis
    using h generateRules_selection_order_independent[OF h, of sampleBuilders "''Acme''" "''Demo''"
        "stacksByLayer sampleArgs" "librariesByStack sampleArgs"]
    by blast
qed

text \<open>
  Claim C9. Either strategy leaves its argument objects as it found them:
  \<open>selectedLibraries\<close>, \<open>stacksByLayer\<close> and \<open>librariesByStack\<close> are the same after
  the call as before.
\<close>

theorem generateRules_arguments_unchanged:
  "snd (SingleFile_generateRules b pn pd a) = a \<and>
   snd (MultiFile_generateRules b pn pd a) = a"
  by (simp add: SingleFile_generateRules_def MultiFile_generateRules_def
      generateLibraryMarkdown_def Let_def iterate_as_visits
      fold_preserves_argumentObjects onLibrary_single_frame onLibrary_multi_frame)

theorem generateRules_arguments_unchanged_witness:
  "snd (SingleFile_generateRules sampleBuilders ''Acme'' ''Demo'' sampleArgs) = sampleArgs \<and>
   snd (MultiFile_generateRules sampleBuilders ''Acme'' ''Demo'' sampleArgs) = sampleArgs"
  by (rule generateRules_arguments_unchanged)

text \<open>
  Claim C10. On empty selections the two strategies agree: for every project name
  and description, and whatever groupings each is given, both return the value of
  \<open>createEmptyProjectRulesContent\<close>.
\<close>

theorem empty_selection_strategies_agree:
  "fst (SingleFile_generateRules b pn pd
          \<lparr>selectedLibraries = [], stacksByLayer = sbl, librariesByStack = lbs\<rparr>) =
   fst (MultiFile_generateRules b pn pd
          \<lparr>selectedLibraries = [], stacksByLayer = sbl', librariesByStack = lbs'\<rparr>) \<and>
   fst (SingleFile_generateRules b pn pd
          \<lparr>selectedLibraries = [], stacksByLayer = sbl, librariesByStack = lbs\<rparr>) =
     createEmptyProjectRulesContent b pn pd"
  by (simp add: SingleFile_generateRules_def MultiFile_generateRules_def)

theorem empty_selection_strategies_agree_witness:
  "fst (SingleFile_generateRules sampleBuilders ''Acme'' ''Demo''
          \<lparr>selectedLibraries = [], stacksByLayer = stacksByLayer sampleArgs,
           librariesByStack = librariesByStack sampleArgs\<rparr>) =
   fst (MultiFile_generateRules sampleBuilders ''Acme'' ''Demo''
          \<lparr>selectedLibraries = [], stacksByLayer = [], librariesByStack = []\<rparr>) \<and>
   fst (SingleFile_generateRules sampleBuilders ''Acme'' ''Demo''
          \<lparr>selectedLibraries = [], stacksByLayer = stacksByLayer sampleArgs,
           librariesByStack = librariesByStack sampleArgs\<rparr>) =
     createEmptyProjectRulesContent sampleBuilders ''Acme'' ''Demo''"
  by (rule empty_selection_strategies_agree)

section \<open>The dirty state of the store\<close>

text \<open>
  Claim C7. \<open>isDirty\<close> holds exactly when the selected set differs from the
  original set, whatever the order of either sequence. Hence it is false right after
  \<open>loadOriginal\<close>; a \<open>toggleLibrary\<close> that follows \<open>loadOriginal\<close> changes the
  selected set and makes it true; in any store, after a toggle it is true exactly
  when the toggled set differs from the original set; and after toggling the same
  library twice it has its prior value.
\<close>

theorem dirty_state_law:
  "isDirty s = (set (selectedLibraries_store s) \<noteq> set (originalLibraries s)) \<and>
   \<not> isDirty (loadOriginal libs s) \<and>
   isDirty (toggleLibrary x (loadOriginal libs s)) \<and>
   isDirty (toggleLibrary x s) =
     ((if x \<in> set (selectedLibraries_store s)
       then set (selectedLibraries_store s) - {x}
       else insert x (set (selectedLibraries_store s))) \<noteq> set (originalLibraries s)) \<and>
   isDirty (toggleLibrary x (toggleLibrary x s)) = isDirty s"
proof -
  have clean: "\<not> isDirty (loadOriginal libs s)"
    by (simp add: isDirty_def loadOriginal_def)
  have after: "isDirty (toggleLibrary x (loadOriginal libs s))"
    using clean toggle_changes_set[of x "loadOriginal libs s"]
    by (simp add: isDirty_def toggle_twice_original)
  have exact: "isDirty (toggleLibrary x s) =
     ((if x \<in> set (selectedLibraries_store s)
       then set (selectedLibraries_store s) - {x}
       else insert x (set (selectedLibraries_store s))) \<noteq> set (originalLibraries s))"
    by (simp only: isDirty_def toggle_set toggle_twice_original)
  have twice: "isDirty (toggleLibrary x (toggleLibrary x s)) = isDirty s"
    by (simp add: isDirty_def toggle_twice_set toggle_twice_original)
  show ?thesis
    using clean after exact twice by (simp add: isDirty_def)
qed

theorem dirty_state_law_witness:
  "\<not> isDirty (loadOriginal [''react-query''] sampleStore) \<and>
   isDirty (toggleLibrary ''zustand'' (loadOriginal [''react-query''] sampleStore)) \<and>
   isDirty (toggleLibrary ''react-query'' (loadOriginal [''react-query''] sampleStore)) \<and>
   isDirty sampleStore \<and>
   isDirty (toggleLibrary ''pinia'' sampleStore) \<and>
   isDirty (toggleLibrary ''pinia'' (toggleLibrary ''pinia'' sampleStore)) = isDirty sampleStore"
  using dirty_state_law[of "sampleStore" "[''react-query'']" "''zustand''"]
    dirty_state_law[of sampleStore "[''react-query'']" "''react-query''"]
    dirty_state_law[of sampleStore "[''react-query'']" "''pinia''"]
  by (simp add: isDirty_def sampleStore_def)

end
